theory Spec2Isabelle
  imports Complex_Main "HOL-Library.AList" "HOL-Library.Sublist" "HOL-Library.Word"
begin

section \<open>Python exceptions as values\<close>

text \<open>
  Every \<^verbatim>\<open>raise\<close> of the modelled functions, and every exception of a library call
  they make, is a value of this type; a function that can raise returns
  \<open>error + 'a\<close> with \<open>Inl\<close> for the exception. The string of a \<open>ValueError\<close> is the fixed
  part of the message (the source interpolates the offending tuples into it), the
  string of a \<open>KeyError\<close> or \<open>NotImplementedError\<close> is the key or the mode.
\<close>

datatype error =
    ValueError string
  | KeyError string
  | TypeError
  | IndexError
  | AttributeError
  | AssertionError
  | RuntimeError
  | NotImplementedError string

text \<open>
  Sequencing: the next statement runs on the value of the previous one, and an
  exception ends the function.
\<close>

fun and_then :: "error + 'a \<Rightarrow> ('a \<Rightarrow> error + 'b) \<Rightarrow> error + 'b" where
  "and_then (Inl e) f = Inl e"
| "and_then (Inr x) f = f x"

section \<open>\<^verbatim>\<open>diffengine/datasets/transforms/loading.py\<close>: \<^verbatim>\<open>random_bbox\<close>\<close>

text \<open>
  An argument of \<^verbatim>\<open>random_bbox\<close> is an int, a tuple of ints, or anything else
  (\<open>OtherArg\<close>: a float, a tuple holding a non-int, ...), which the assertions
  \<^verbatim>\<open>assert is_tuple_of(..., int)\<close> refuse.
\<close>

datatype arg = IntArg int | TupleArg "int list" | OtherArg

text \<open>
  \<^verbatim>\<open>if not isinstance(x, tuple): x = (x, x)\<close> followed by the assertion on the result.
\<close>

fun as_int_tuple :: "arg \<Rightarrow> error + int list" where
  "as_int_tuple (IntArg n) = Inr [n, n]"
| "as_int_tuple (TupleArg t) = Inr t"
| "as_int_tuple OtherArg = Inl AssertionError"

text \<open>The tuple unpacking \<^verbatim>\<open>a, b = t\<close>, which raises ValueError unless \<open>t\<close> has two items.\<close>

fun unpack2 :: "int list \<Rightarrow> error + int \<times> int" where
  "unpack2 [a, b] = Inr (a, b)"
| "unpack2 [] = Inl (ValueError ''not enough values to unpack'')"
| "unpack2 [a] = Inl (ValueError ''not enough values to unpack'')"
| "unpack2 (a # b # c # t) = Inl (ValueError ''too many values to unpack'')"

text \<open>
  \<^verbatim>\<open>np.random.randint(low, high)\<close> draws from the half-open range \<open>[low, high)\<close> and
  raises ValueError when the range is empty. The third argument is the entropy the
  draw consumes: as it ranges over the integers the result ranges over exactly
  \<open>[low, high)\<close> (lemma \<open>randint_outcomes\<close>). Image sizes are far inside numpy's
  64-bit range, whose bounds are not modelled.
\<close>

definition randint :: "int \<Rightarrow> int \<Rightarrow> int \<Rightarrow> error + int" where
  "randint low high r =
     (if high \<le> low then Inl (ValueError ''low >= high'')
      else Inr (low + r mod (high - low)))"

text \<open>
  \<^verbatim>\<open>random_bbox(img_shape, max_bbox_shape, max_bbox_delta, min_margin)\<close>, in the source's
  order: the three normalisations and assertions, the four unpackings, the three
  validation checks, the four draws. The last argument holds the entropy of the four
  draws (top, left, delta_top, delta_left). Python's \<^verbatim>\<open>//\<close> on ints is \<open>div\<close>.
\<close>

definition random_bbox ::
  "int list \<Rightarrow> arg \<Rightarrow> arg \<Rightarrow> arg \<Rightarrow> int \<times> int \<times> int \<times> int
     \<Rightarrow> error + int \<times> int \<times> int \<times> int" where
  "random_bbox img_shape max_bbox_shape max_bbox_delta min_margin rs =
    and_then (as_int_tuple max_bbox_shape) (\<lambda>shape_t.
    and_then (as_int_tuple max_bbox_delta) (\<lambda>delta_t.
    and_then (as_int_tuple min_margin) (\<lambda>margin_t.
    and_then (unpack2 (take 2 img_shape)) (\<lambda>(img_h, img_w).
    and_then (unpack2 shape_t) (\<lambda>(max_mask_h, max_mask_w).
    and_then (unpack2 delta_t) (\<lambda>(max_delta_h, max_delta_w).
    and_then (unpack2 margin_t) (\<lambda>(margin_h, margin_w).
    if max_mask_h > img_h \<or> max_mask_w > img_w
    then Inl (ValueError ''mask shape should be smaller than image shape'')
    else if max_delta_h div 2 * 2 \<ge> max_mask_h \<or> max_delta_w div 2 * 2 \<ge> max_mask_w
    then Inl (ValueError ''mask delta should be smaller than mask shape'')
    else if img_h - max_mask_h < 2 * margin_h \<or> img_w - max_mask_w < 2 * margin_w
    then Inl (ValueError ''Margin cannot be satisfied for img shape and mask shape'')
    else
      let max_top = img_h - margin_h - max_mask_h;
          max_left = img_w - margin_w - max_mask_w
      in
      and_then (randint margin_h max_top (fst rs)) (\<lambda>top0.
      and_then (randint margin_w max_left (fst (snd rs))) (\<lambda>left0.
      and_then (randint 0 (max_delta_h div 2 + 1) (fst (snd (snd rs)))) (\<lambda>delta_top.
      and_then (randint 0 (max_delta_w div 2 + 1) (snd (snd (snd rs)))) (\<lambda>delta_left.
      Inr (top0 + delta_top, left0 + delta_left,
           max_mask_h - delta_top, max_mask_w - delta_left))))))))))))"

text \<open>
  The three validation conditions of \<^verbatim>\<open>random_bbox\<close> as claim C3 words them, on the
  components of the four arguments.
\<close>

definition validation_fails :: "int \<times> int \<Rightarrow> int \<times> int \<Rightarrow> int \<times> int \<Rightarrow> int \<times> int \<Rightarrow> bool" where
  "validation_fails img max_mask max_delta margin \<longleftrightarrow>
     (fst max_mask > fst img \<or> snd max_mask > snd img)
   \<or> (fst max_delta div 2 * 2 \<ge> fst max_mask \<or> snd max_delta div 2 * 2 \<ge> snd max_mask)
   \<or> (fst img - fst max_mask < 2 * fst margin \<or> snd img - snd max_mask < 2 * snd margin)"

section \<open>\<^verbatim>\<open>diffengine/datasets/transforms/loading.py\<close>: \<^verbatim>\<open>bbox2mask\<close>\<close>

text \<open>
  A mask is an array of shape \<open>(h, w, 1)\<close> with dtype uint8: a list of \<open>h\<close> rows, each a
  list of \<open>w\<close> pixels, each a list of one byte.
\<close>

type_synonym mask = "8 word list list list"

text \<open>\<^verbatim>\<open>np.zeros((height, width, 1), dtype="uint8")\<close>; numpy refuses a negative dimension.\<close>

definition np_zeros :: "int \<Rightarrow> int \<Rightarrow> error + mask" where
  "np_zeros height width =
     (if height < 0 \<or> width < 0
      then Inl (ValueError ''negative dimensions are not allowed'')
      else Inr (replicate (nat height) (replicate (nat width) [0])))"

text \<open>
  A bound \<open>i\<close> of a slice \<^verbatim>\<open>a[i:j]\<close> over an axis of length \<open>n\<close>: a negative bound
  counts from the end, and the result is clipped to \<open>[0, n]\<close>.
\<close>

definition slice_bound :: "nat \<Rightarrow> int \<Rightarrow> nat" where
  "slice_bound n i = (if i < 0 then nat (max 0 (i + int n)) else min (nat i) n)"

text \<open>
  The slice assignment \<^verbatim>\<open>mask[r0:r1, c0:c1, :] = 1\<close>: every byte of every pixel whose
  row and column lie in the two slices becomes 1, the rest is kept.
\<close>

definition fill_cols :: "int \<Rightarrow> int \<Rightarrow> 8 word list list \<Rightarrow> 8 word list list" where
  "fill_cols c0 c1 row =
     map (\<lambda>(j, px).
            if slice_bound (length row) c0 \<le> j \<and> j < slice_bound (length row) c1
            then map (\<lambda>_. 1) px else px)
         (enumerate 0 row)"

definition fill_block :: "int \<Rightarrow> int \<Rightarrow> int \<Rightarrow> int \<Rightarrow> mask \<Rightarrow> mask" where
  "fill_block r0 r1 c0 c1 m =
     map (\<lambda>(i, row).
            if slice_bound (length m) r0 \<le> i \<and> i < slice_bound (length m) r1
            then fill_cols c0 c1 row else row)
         (enumerate 0 m)"

text \<open>\<^verbatim>\<open>t[i]\<close> for a tuple \<open>t\<close> and a literal index \<open>i \<ge> 0\<close>.\<close>

definition tuple_get :: "int list \<Rightarrow> nat \<Rightarrow> error + int" where
  "tuple_get t i = (if i < length t then Inr (t ! i) else Inl IndexError)"

text \<open>
  \<^verbatim>\<open>bbox2mask(img_shape, bbox)\<close> with the default dtype. The bounds of the two slices
  are evaluated left to right: \<^verbatim>\<open>bbox[0]\<close>, \<^verbatim>\<open>bbox[0] + bbox[2]\<close>, \<^verbatim>\<open>bbox[1]\<close>,
  \<^verbatim>\<open>bbox[1] + bbox[3]\<close>.
\<close>

definition bbox2mask :: "int list \<Rightarrow> int list \<Rightarrow> error + mask" where
  "bbox2mask img_shape bbox =
    and_then (unpack2 (take 2 img_shape)) (\<lambda>(height, width).
    and_then (np_zeros height width) (\<lambda>mask.
    and_then (tuple_get bbox 0) (\<lambda>b0.
    and_then (tuple_get bbox 2) (\<lambda>b2.
    and_then (tuple_get bbox 1) (\<lambda>b1.
    and_then (tuple_get bbox 3) (\<lambda>b3.
    Inr (fill_block b0 (b0 + b2) b1 (b1 + b3) mask)))))))"

text \<open>The sum of all entries of a mask, as a natural number (\<^verbatim>\<open>mask.sum()\<close>).\<close>

definition mask_sum :: "mask \<Rightarrow> nat" where
  "mask_sum m = sum_list (map unat (concat (concat m)))"

section \<open>\<^verbatim>\<open>diffengine/datasets/transforms/loading.py\<close>: \<^verbatim>\<open>LoadMask\<close>\<close>

text \<open>
  The values of a results dict that \<^verbatim>\<open>LoadMask.transform\<close> reads or writes: a PIL image
  (of which only \<^verbatim>\<open>height\<close> and \<^verbatim>\<open>width\<close> are read), a mask array, a box tuple, and any
  other value. A dict is an association list in insertion order: \<^verbatim>\<open>d[k] = v\<close> is
  \<open>AList.update k v d\<close>, which replaces the value of a key in place and appends a new
  key, as a Python dict does.
\<close>

datatype rvalue =
    PILImage int int
  | MaskArray mask
  | BBox "int \<times> int \<times> int \<times> int"
  | OtherValue string

type_synonym results = "(string \<times> rvalue) list"

text \<open>
  The two attributes \<^verbatim>\<open>__init__\<close> sets. \<^verbatim>\<open>mask_config\<close> holds the keyword arguments of
  the mask generator of the mode.
\<close>

record LoadMask =
  mask_mode :: string
  mask_config :: "(string \<times> arg) list"

definition LoadMask_init :: "string \<Rightarrow> (string \<times> arg) list option \<Rightarrow> LoadMask" where
  "LoadMask_init mode config =
     \<lparr>mask_mode = mode,
      mask_config = (case config of None \<Rightarrow> [] | Some c \<Rightarrow> c)\<rparr>"

text \<open>
  The call \<^verbatim>\<open>random_bbox(img_shape=img_shape, **self.mask_config)\<close>: Python raises
  TypeError for a keyword that is no parameter of \<^verbatim>\<open>random_bbox\<close> (or that repeats
  \<^verbatim>\<open>img_shape\<close>) and for a missing \<^verbatim>\<open>max_bbox_shape\<close>, which has no default; the other
  two parameters default to 40 and 20.
\<close>

definition random_bbox_kwargs ::
  "int list \<Rightarrow> (string \<times> arg) list \<Rightarrow> int \<times> int \<times> int \<times> int
     \<Rightarrow> error + int \<times> int \<times> int \<times> int" where
  "random_bbox_kwargs img_shape kwargs rs =
     (if list_ex (\<lambda>k. k \<notin> set [''max_bbox_shape'', ''max_bbox_delta'', ''min_margin''])
           (map fst kwargs)
      then Inl TypeError
      else case map_of kwargs ''max_bbox_shape'' of
        None \<Rightarrow> Inl TypeError
      | Some shape \<Rightarrow>
          random_bbox img_shape shape
            (case map_of kwargs ''max_bbox_delta'' of None \<Rightarrow> IntArg 40 | Some d \<Rightarrow> d)
            (case map_of kwargs ''min_margin'' of None \<Rightarrow> IntArg 20 | Some g \<Rightarrow> g)
            rs)"

text \<open>\<^verbatim>\<open>img_shape = (results["img"].height, results["img"].width)\<close>.\<close>

definition img_shape_of :: "results \<Rightarrow> error + int list" where
  "img_shape_of results =
     (case map_of results ''img'' of
        None \<Rightarrow> Inl (KeyError ''img'')
      | Some (PILImage height width) \<Rightarrow> Inr [height, width]
      | Some _ \<Rightarrow> Inl AttributeError)"

text \<open>
  \<^verbatim>\<open>LoadMask.transform(results)\<close>. The mask generators of the modes \<^verbatim>\<open>irregular\<close> and \<^verbatim>\<open>ff\<close>
  (\<^verbatim>\<open>get_irregular_mask\<close>, \<^verbatim>\<open>brush_stroke_mask\<close>) draw random strokes with OpenCV and PIL;
  they are parameters here, each a function of the image shape and the keyword
  arguments that returns a mask or raises. \<open>rs\<close> is the entropy of \<^verbatim>\<open>random_bbox\<close>.
\<close>

definition transform ::
  "(int list \<Rightarrow> (string \<times> arg) list \<Rightarrow> error + mask)
   \<Rightarrow> (int list \<Rightarrow> (string \<times> arg) list \<Rightarrow> error + mask)
   \<Rightarrow> int \<times> int \<times> int \<times> int
   \<Rightarrow> LoadMask \<Rightarrow> results \<Rightarrow> error + results" where
  "transform get_irregular_mask brush_stroke_mask rs self results =
    and_then (img_shape_of results) (\<lambda>img_shape.
      if mask_mode self = ''bbox'' then
        and_then (random_bbox_kwargs img_shape (mask_config self) rs) (\<lambda>(t, l, h, w).
        and_then (bbox2mask img_shape [t, l, h, w]) (\<lambda>mask.
        Inr (AList.update ''mask'' (MaskArray mask)
              (AList.update ''mask_bbox'' (BBox (t, l, h, w)) results))))
      else if mask_mode self = ''irregular'' then
        and_then (get_irregular_mask img_shape (mask_config self)) (\<lambda>mask.
        Inr (AList.update ''mask'' (MaskArray mask) results))
      else if mask_mode self = ''ff'' then
        and_then (brush_stroke_mask img_shape (mask_config self)) (\<lambda>mask.
        Inr (AList.update ''mask'' (MaskArray mask) results))
      else Inl (NotImplementedError (mask_mode self)))"

text \<open>
  A mask generator that ignores its arguments and returns a fixed mask: it stands for
  the two stroke generators where a closed example needs one.
\<close>

definition fixed_mask_generator :: "mask \<Rightarrow> int list \<Rightarrow> (string \<times> arg) list \<Rightarrow> error + mask" where
  "fixed_mask_generator m img_shape kwargs = Inr m"

section \<open>\<^verbatim>\<open>diffengine/models/editors/pixart_alpha/pixart_alpha_data_preprocessor.py\<close>\<close>

text \<open>
  A tensor is its shape and its elements in row-major order; the element type plays
  no role in the preprocessor and stays a type variable.
\<close>

datatype 'a tensor = Tensor (shape: "nat list") (elems: "'a list")

text \<open>
  The values a batch holds: a tensor, a list, a string, a dict, or any other object.
  A dict is an association list in insertion order, as for \<^verbatim>\<open>LoadMask\<close>. Values are
  not shared between keys: the collate function of the data loader builds each list
  and each sub-dict afresh.
\<close>

datatype 'a pyval =
    VTensor "'a tensor"
  | VList "'a pyval list"
  | VStr string
  | VDict "(string \<times> 'a pyval) list"
  | VOther string

type_synonym 'a pydict = "(string \<times> 'a pyval) list"

text \<open>\<^verbatim>\<open>d[k]\<close> and \<^verbatim>\<open>k in d\<close> for a dict \<open>d\<close>.\<close>

definition getitem :: "'a pydict \<Rightarrow> string \<Rightarrow> error + 'a pyval" where
  "getitem d k = (case map_of d k of None \<Rightarrow> Inl (KeyError k) | Some v \<Rightarrow> Inr v)"

definition has_key :: "'a pydict \<Rightarrow> string \<Rightarrow> bool" where
  "has_key d k = (case map_of d k of None \<Rightarrow> False | Some v \<Rightarrow> True)"

text \<open>
  \<^verbatim>\<open>v.pop(k)\<close>: on a dict it returns the value of \<open>k\<close> and removes the entry, or raises
  KeyError; a list refuses a string index; the other values have no \<^verbatim>\<open>pop\<close>.
\<close>

fun dict_pop :: "'a pyval \<Rightarrow> string \<Rightarrow> error + 'a pyval \<times> 'a pydict" where
  "dict_pop (VDict d) k =
     (case map_of d k of None \<Rightarrow> Inl (KeyError k) | Some v \<Rightarrow> Inr (v, AList.delete k d))"
| "dict_pop (VList l) k = Inl TypeError"
| "dict_pop v k = Inl AttributeError"

text \<open>
  \<^verbatim>\<open>x + y\<close>: two lists are concatenated. What \<^verbatim>\<open>+\<close> does on any other pair of operands
  (strings, tensors, a list and a tensor, ...) is left to the parameter \<open>add_other\<close>.
\<close>

fun py_add ::
  "('a pyval \<Rightarrow> 'a pyval \<Rightarrow> error + 'a pyval) \<Rightarrow> 'a pyval \<Rightarrow> 'a pyval \<Rightarrow> error + 'a pyval" where
  "py_add add_other (VList a) (VList b) = Inr (VList (a @ b))"
| "py_add add_other x y = add_other x y"

text \<open>
  \<^verbatim>\<open>torch.stack(v)\<close> along the new first dimension, as the library documents it: the
  argument is a non-empty sequence of tensors of one shape; the result has that shape
  behind a new first dimension of the length of the sequence, and holds the elements
  of the tensors one after the other. An empty list and tensors of different shapes
  raise RuntimeError, anything that is not a list of tensors TypeError.
\<close>

fun is_tensor :: "'a pyval \<Rightarrow> bool" where
  "is_tensor (VTensor t) = True"
| "is_tensor v = False"

fun the_tensor :: "'a pyval \<Rightarrow> 'a tensor" where
  "the_tensor (VTensor t) = t"
| "the_tensor v = Tensor [] []"

definition stacked :: "'a tensor list \<Rightarrow> 'a tensor" where
  "stacked ts = Tensor (length ts # shape (hd ts)) (concat (map elems ts))"

fun torch_stack :: "'a pyval \<Rightarrow> error + 'a pyval" where
  "torch_stack (VList vs) =
     (if vs = [] then Inl RuntimeError
      else if \<not> list_all is_tensor vs then Inl TypeError
      else if \<not> list_all (\<lambda>v. shape (the_tensor v) = shape (the_tensor (hd vs))) vs
      then Inl RuntimeError
      else Inr (VTensor (stacked (map the_tensor vs))))"
| "torch_stack v = Inl TypeError"

text \<open>
  One statement of the class-image branch,
  \<^verbatim>\<open>inputs[k] = inputs[k] + inputs["result_class_image"].pop(k)\<close>: the left operand is
  read first, then the entry is popped from the sub-dict, then the sum is stored.
\<close>

definition merge_key ::
  "('a pyval \<Rightarrow> 'a pyval \<Rightarrow> error + 'a pyval) \<Rightarrow> string \<Rightarrow> 'a pydict \<Rightarrow> error + 'a pydict" where
  "merge_key add_other k inputs =
     and_then (getitem inputs k) (\<lambda>x.
     and_then (getitem inputs ''result_class_image'') (\<lambda>rci.
     and_then (dict_pop rci k) (\<lambda>(y, rci').
     and_then (py_add add_other x y) (\<lambda>z.
     Inr (AList.update k z
           (AList.update ''result_class_image'' (VDict rci') inputs))))))"

text \<open>Lines 31 to 44: the branch \<^verbatim>\<open>if "result_class_image" in data["inputs"]\<close>.\<close>

definition merge_class_image ::
  "('a pyval \<Rightarrow> 'a pyval \<Rightarrow> error + 'a pyval) \<Rightarrow> 'a pydict \<Rightarrow> error + 'a pydict" where
  "merge_class_image add_other inputs =
     (if has_key inputs ''result_class_image'' then
        and_then (merge_key add_other ''text'' inputs) (\<lambda>i1.
        and_then (merge_key add_other ''img'' i1) (\<lambda>i2.
        and_then (if has_key i2 ''resolution''
                  then merge_key add_other ''resolution'' i2 else Inr i2) (\<lambda>i3.
        if has_key i3 ''aspect_ratio''
        then merge_key add_other ''aspect_ratio'' i3 else Inr i3)))
      else Inr inputs)"

text \<open>\<^verbatim>\<open>inputs[k] = torch.stack(inputs[k])\<close>, and lines 46 to 53.\<close>

definition stack_key :: "string \<Rightarrow> 'a pydict \<Rightarrow> error + 'a pydict" where
  "stack_key k inputs =
     and_then (getitem inputs k) (\<lambda>v.
     and_then (torch_stack v) (\<lambda>t.
     Inr (AList.update k t inputs)))"

definition stack_inputs :: "'a pydict \<Rightarrow> error + 'a pydict" where
  "stack_inputs inputs =
     and_then (stack_key ''img'' inputs) (\<lambda>i1.
     and_then (if has_key i1 ''resolution'' then stack_key ''resolution'' i1 else Inr i1) (\<lambda>i2.
     if has_key i2 ''aspect_ratio'' then stack_key ''aspect_ratio'' i2 else Inr i2))"

text \<open>
  Everything \<^verbatim>\<open>forward\<close> does before it calls the base class: the dict it hands to
  \<^verbatim>\<open>super().forward\<close>. \<^verbatim>\<open>data["inputs"]\<close> is updated in place, so \<open>data\<close> keeps its keys. A
  \<^verbatim>\<open>data["inputs"]\<close> that is no dict fails at the first subscript with a string (the
  exception is given as TypeError).
\<close>

definition reshape_data ::
  "('a pyval \<Rightarrow> 'a pyval \<Rightarrow> error + 'a pyval) \<Rightarrow> 'a pydict \<Rightarrow> error + 'a pydict" where
  "reshape_data add_other data =
     and_then (getitem data ''inputs'') (\<lambda>v.
       case v of
         VDict inputs \<Rightarrow>
           and_then (merge_class_image add_other inputs) (\<lambda>i1.
           and_then (stack_inputs i1) (\<lambda>i2.
           Inr (AList.update ''inputs'' (VDict i2) data)))
       | _ \<Rightarrow> Inl TypeError)"

text \<open>
  \<^verbatim>\<open>PixArtAlphaDataPreprocessor.forward(data, training)\<close>. \<open>base_forward\<close> is
  \<^verbatim>\<open>BaseDataPreprocessor.forward\<close> of the training framework; \<^verbatim>\<open>training\<close> is not used.
\<close>

definition forward ::
  "('a pydict \<Rightarrow> error + 'r) \<Rightarrow> ('a pyval \<Rightarrow> 'a pyval \<Rightarrow> error + 'a pyval)
     \<Rightarrow> 'a pydict \<Rightarrow> error + 'r" where
  "forward base_forward add_other data = and_then (reshape_data add_other data) base_forward"

text \<open>
  For closed examples: a \<^verbatim>\<open>+\<close> that refuses every pair of operands that are not two
  lists.
\<close>

definition add_refused :: "'a pyval \<Rightarrow> 'a pyval \<Rightarrow> error + 'a pyval" where
  "add_refused x y = Inl TypeError"

text \<open>
  Two dicts that have the same keys in the same order and the same value at every key
  outside \<open>K\<close>: the second was obtained from the first by modifying entries of \<open>K\<close> only.
\<close>

definition same_except :: "string set \<Rightarrow> 'a pydict \<Rightarrow> 'a pydict \<Rightarrow> bool" where
  "same_except K d d' \<longleftrightarrow>
     map fst d' = map fst d \<and> (\<forall>k. k \<notin> K \<longrightarrow> map_of d' k = map_of d k)"

text \<open>
  A value that \<^verbatim>\<open>torch.stack\<close> accepts, in the words of claim C1: a non-empty list of
  equal-shaped tensors.
\<close>

fun stackable :: "'a pyval \<Rightarrow> bool" where
  "stackable (VList vs) \<longleftrightarrow>
     vs \<noteq> [] \<and> list_all is_tensor vs
     \<and> list_all (\<lambda>v. shape (the_tensor v) = shape (the_tensor (hd vs))) vs"
| "stackable v \<longleftrightarrow> False"

text \<open>
  The dict in which the list under \<open>k\<close>, if there is one, has been replaced by its batch
  tensor, again in the words of claim C1.
\<close>

definition batch_entry :: "string \<Rightarrow> 'a pydict \<Rightarrow> 'a pydict" where
  "batch_entry k d =
     (case map_of d k of
        Some (VList vs) \<Rightarrow> AList.update k (VTensor (stacked (map the_tensor vs))) d
      | _ \<Rightarrow> d)"

text \<open>
  The batches the preprocessor is written for. An entry that is stacked is absent or
  a non-empty list of equal-shaped tensors; an entry that is merged with the class
  images is absent, or a list whose concatenation with the list of the class images
  is such a list; the two text entries are lists.
\<close>

definition stackable_entry :: "'a pydict \<Rightarrow> string \<Rightarrow> bool" where
  "stackable_entry d k = (case map_of d k of None \<Rightarrow> True | Some v \<Rightarrow> stackable v)"

definition mergeable_entry :: "'a pydict \<Rightarrow> 'a pydict \<Rightarrow> string \<Rightarrow> bool" where
  "mergeable_entry d r k =
     (case map_of d k of
        None \<Rightarrow> True
      | Some v \<Rightarrow>
          (case map_of r k of
             None \<Rightarrow> False
           | Some u \<Rightarrow>
               (case v of
                  VList a \<Rightarrow> (case u of VList b \<Rightarrow> stackable (VList (a @ b)) | _ \<Rightarrow> False)
                | _ \<Rightarrow> False)))"

definition list_entries :: "'a pydict \<Rightarrow> 'a pydict \<Rightarrow> string \<Rightarrow> bool" where
  "list_entries d r k =
     (case map_of d k of
        None \<Rightarrow> False
      | Some v \<Rightarrow>
          (case map_of r k of
             None \<Rightarrow> False
           | Some u \<Rightarrow>
               (case v of
                  VList a \<Rightarrow> (case u of VList b \<Rightarrow> True | _ \<Rightarrow> False)
                | _ \<Rightarrow> False)))"

definition well_formed_inputs :: "'a pydict \<Rightarrow> bool" where
  "well_formed_inputs inputs =
     (case map_of inputs ''result_class_image'' of
        None \<Rightarrow>
          has_key inputs ''img'' \<and> stackable_entry inputs ''img''
          \<and> stackable_entry inputs ''resolution'' \<and> stackable_entry inputs ''aspect_ratio''
      | Some c \<Rightarrow>
          (case c of
             VDict r \<Rightarrow>
               list_entries inputs r ''text''
               \<and> has_key inputs ''img'' \<and> mergeable_entry inputs r ''img''
               \<and> mergeable_entry inputs r ''resolution''
               \<and> mergeable_entry inputs r ''aspect_ratio''
           | _ \<Rightarrow> False))"

definition well_formed_batch :: "'a pydict \<Rightarrow> bool" where
  "well_formed_batch data =
     (case map_of data ''inputs'' of
        None \<Rightarrow> False
      | Some v \<Rightarrow> (case v of VDict inputs \<Rightarrow> well_formed_inputs inputs | _ \<Rightarrow> False))"

section \<open>Properties of \<^verbatim>\<open>random_bbox\<close>\<close>

lemma and_then_Inr_iff:
  "and_then m f = Inr y \<longleftrightarrow> (\<exists>x. m = Inr x \<and> f x = Inr y)"
  by (cases m) auto

lemma randint_outcomes:
  "(\<exists>r. randint low high r = Inr v) \<longleftrightarrow> (low \<le> v \<and> v < high)"
proof
  assume "\<exists>r. randint low high r = Inr v"
  then obtain r where r: "randint low high r = Inr v" ..
  then have lt: "low < high" and v: "v = low + r mod (high - low)"
    by (auto simp: randint_def split: if_splits)
  from lt have "0 \<le> r mod (high - low)" "r mod (high - low) < high - low"
    by simp_all
  with v show "low \<le> v \<and> v < high" by linarith
next
  assume b: "low \<le> v \<and> v < high"
  then have "(v - low) mod (high - low) = v - low"
    by (simp add: mod_pos_pos_trivial)
  with b have "randint low high (v - low) = Inr v"
    by (simp add: randint_def)
  then show "\<exists>r. randint low high r = Inr v" ..
qed

lemma randint_bounds:
  "randint low high r = Inr v \<Longrightarrow> low \<le> v \<and> v < high"
  using randint_outcomes [of low high v] by blast

text \<open>
  Claim C3. The claim: \<^verbatim>\<open>random_bbox\<close> raises ValueError if and only if one of its three
  validation conditions holds, and otherwise returns a 4-tuple. The code does not: for
  a 256 x 256 image, a 128 x 128 mask, delta 40 and margin 64 none of the three
  conditions holds (256 - 128 = 2 * 64 passes the margin check, which uses \<open><\<close>), yet
  the draw \<^verbatim>\<open>np.random.randint(64, 64)\<close> of the top row has an empty range and raises
  ValueError, whatever the random state.
\<close>

theorem random_bbox_exact_margin_raises:
  "\<not> validation_fails (256, 256) (128, 128) (40, 40) (64, 64)
   \<and> (\<forall>rs. random_bbox [256, 256] (TupleArg [128, 128]) (IntArg 40) (IntArg 64) rs
          = Inl (ValueError ''low >= high''))"
  by (simp add: validation_fails_def random_bbox_def randint_def)

lemma random_bbox_returned_box:
  assumes "random_bbox img_shape max_bbox_shape max_bbox_delta min_margin rs
             = Inr (t, l, h, w)"
    and "take 2 img_shape = [img_h, img_w]"
    and "as_int_tuple max_bbox_shape = Inr [max_mask_h, max_mask_w]"
    and "as_int_tuple max_bbox_delta = Inr [max_delta_h, max_delta_w]"
    and "as_int_tuple min_margin = Inr [margin_h, margin_w]"
  shows "margin_h \<le> t \<and> margin_w \<le> l
       \<and> t + h \<le> img_h - margin_h \<and> l + w \<le> img_w - margin_w
       \<and> max_mask_h - max_delta_h div 2 \<le> h \<and> h \<le> max_mask_h
       \<and> max_mask_w - max_delta_w div 2 \<le> w \<and> w \<le> max_mask_w"
proof -
  from assms obtain t0 l0 dt dl where
    t0: "randint margin_h (img_h - margin_h - max_mask_h) (fst rs) = Inr t0" and
    l0: "randint margin_w (img_w - margin_w - max_mask_w) (fst (snd rs)) = Inr l0" and
    dt: "randint 0 (max_delta_h div 2 + 1) (fst (snd (snd rs))) = Inr dt" and
    dl: "randint 0 (max_delta_w div 2 + 1) (snd (snd (snd rs))) = Inr dl" and
    res: "t = t0 + dt" "l = l0 + dl" "h = max_mask_h - dt" "w = max_mask_w - dl"
    by (auto simp: random_bbox_def and_then_Inr_iff split: if_splits)
  note b = randint_bounds [OF t0] randint_bounds [OF l0]
    randint_bounds [OF dt] randint_bounds [OF dl]
  from b res show ?thesis by auto
qed

lemma randint_returns:
  "low < high \<Longrightarrow> randint low high r = Inr (low + r mod (high - low))"
  by (simp add: randint_def)

lemma random_bbox_returns:
  assumes shape: "take 2 img_shape = [img_h, img_w]"
    and args: "as_int_tuple max_bbox_shape = Inr [max_mask_h, max_mask_w]"
      "as_int_tuple max_bbox_delta = Inr [max_delta_h, max_delta_w]"
      "as_int_tuple min_margin = Inr [margin_h, margin_w]"
    and valid: "\<not> validation_fails (img_h, img_w) (max_mask_h, max_mask_w)
                    (max_delta_h, max_delta_w) (margin_h, margin_w)"
    and room: "img_h - max_mask_h \<noteq> 2 * margin_h" "img_w - max_mask_w \<noteq> 2 * margin_w"
    and delta: "0 \<le> max_delta_h" "0 \<le> max_delta_w"
  shows "random_bbox img_shape max_bbox_shape max_bbox_delta min_margin rs
       = Inr (margin_h + fst rs mod (img_h - margin_h - max_mask_h - margin_h)
                + fst (snd (snd rs)) mod (max_delta_h div 2 + 1),
              margin_w + fst (snd rs) mod (img_w - margin_w - max_mask_w - margin_w)
                + snd (snd (snd rs)) mod (max_delta_w div 2 + 1),
              max_mask_h - fst (snd (snd rs)) mod (max_delta_h div 2 + 1),
              max_mask_w - snd (snd (snd rs)) mod (max_delta_w div 2 + 1))"
proof -
  from valid have guards:
    "\<not> (max_mask_h > img_h \<or> max_mask_w > img_w)"
    "\<not> (max_delta_h div 2 * 2 \<ge> max_mask_h \<or> max_delta_w div 2 * 2 \<ge> max_mask_w)"
    "\<not> (img_h - max_mask_h < 2 * margin_h \<or> img_w - max_mask_w < 2 * margin_w)"
    by (simp_all add: validation_fails_def)
  from guards(3) room have "margin_h < img_h - margin_h - max_mask_h"
    "margin_w < img_w - margin_w - max_mask_w"
    by linarith+
  then have d12:
    "randint margin_h (img_h - margin_h - max_mask_h) (fst rs)
       = Inr (margin_h + fst rs mod (img_h - margin_h - max_mask_h - margin_h))"
    "randint margin_w (img_w - margin_w - max_mask_w) (fst (snd rs))
       = Inr (margin_w + fst (snd rs) mod (img_w - margin_w - max_mask_w - margin_w))"
    by (simp_all add: randint_returns)
  from delta have "0 < max_delta_h div 2 + 1" "0 < max_delta_w div 2 + 1"
    by simp_all
  then have d34:
    "randint 0 (max_delta_h div 2 + 1) (fst (snd (snd rs)))
       = Inr (fst (snd (snd rs)) mod (max_delta_h div 2 + 1))"
    "randint 0 (max_delta_w div 2 + 1) (snd (snd (snd rs)))
       = Inr (snd (snd (snd rs)) mod (max_delta_w div 2 + 1))"
    by (simp_all add: randint_returns)
  show ?thesis
    unfolding random_bbox_def
    by (simp only: shape args guards d12 d34 and_then.simps unpack2.simps prod.case
        if_False Let_def)
qed

text \<open>
  Claim C4, as stated, fails: the margin \<open>-20\<close> passes the three validation checks for a
  256 x 256 image and a 128 x 128 box, and the box returned for the draws
  \<open>(0, 0, 0, 0)\<close> starts at row \<open>-20\<close> and column \<open>-20\<close>, outside the image.
  \<^verbatim>\<open>random_bbox\<close> has no check on the sign of the margin.
\<close>

theorem random_bbox_negative_margin_outside:
  "\<not> validation_fails (256, 256) (128, 128) (40, 40) (- 20, - 20)
   \<and> random_bbox [256, 256] (IntArg 128) (IntArg 40) (IntArg (- 20)) (0, 0, 0, 0)
       = Inr (- 20, - 20, 128, 128)"
  by (simp add: validation_fails_def random_bbox_def randint_def)

text \<open>
  Claim C4, amended. Take an input that passes the three validation checks, leaves
  room for a draw (\<open>img_h - max_mask_h\<close> is not exactly \<open>2 * margin_h\<close>, and likewise for
  the width) and has a non-negative delta. Then for every outcome of the four draws
  \<^verbatim>\<open>random_bbox\<close> returns a box \<open>(t, l, h, w)\<close> (top, left, height, width) that keeps
  the margin from every edge and whose shape is the maximal shape shrunk by at most
  half the delta: \<open>margin_h \<le> t\<close>, \<open>margin_w \<le> l\<close>, \<open>t + h \<le> img_h - margin_h\<close>,
  \<open>l + w \<le> img_w - margin_w\<close>, \<open>max_mask_h - max_delta_h div 2 \<le> h \<le> max_mask_h\<close> and
  \<open>max_mask_w - max_delta_w div 2 \<le> w \<le> max_mask_w\<close>. The box is not empty, and it
  lies inside the image whenever the margins are not negative. The hypotheses name
  the components of the arguments: an int argument \<open>n\<close> stands for the pair \<open>(n, n)\<close>.
\<close>

theorem random_bbox_keeps_margin:
  assumes shape: "take 2 img_shape = [img_h, img_w]"
    and args: "as_int_tuple max_bbox_shape = Inr [max_mask_h, max_mask_w]"
      "as_int_tuple max_bbox_delta = Inr [max_delta_h, max_delta_w]"
      "as_int_tuple min_margin = Inr [margin_h, margin_w]"
    and valid: "\<not> validation_fails (img_h, img_w) (max_mask_h, max_mask_w)
                    (max_delta_h, max_delta_w) (margin_h, margin_w)"
    and room: "img_h - max_mask_h \<noteq> 2 * margin_h" "img_w - max_mask_w \<noteq> 2 * margin_w"
    and delta: "0 \<le> max_delta_h" "0 \<le> max_delta_w"
  shows "\<exists>t l h w.
           random_bbox img_shape max_bbox_shape max_bbox_delta min_margin rs = Inr (t, l, h, w)
         \<and> margin_h \<le> t \<and> margin_w \<le> l
         \<and> t + h \<le> img_h - margin_h \<and> l + w \<le> img_w - margin_w
         \<and> max_mask_h - max_delta_h div 2 \<le> h \<and> h \<le> max_mask_h
         \<and> max_mask_w - max_delta_w div 2 \<le> w \<and> w \<le> max_mask_w
         \<and> 0 < h \<and> 0 < w
         \<and> (0 \<le> margin_h \<longrightarrow> 0 \<le> t \<and> t + h \<le> img_h)
         \<and> (0 \<le> margin_w \<longrightarrow> 0 \<le> l \<and> l + w \<le> img_w)"
proof -
  from random_bbox_returns [OF assms, of rs] obtain t l h w where
    run: "random_bbox img_shape max_bbox_shape max_bbox_delta min_margin rs = Inr (t, l, h, w)"
    by blast
  note box = random_bbox_returned_box [OF run shape args]
  from valid have "max_delta_h div 2 * 2 < max_mask_h" "max_delta_w div 2 * 2 < max_mask_w"
    by (simp_all add: validation_fails_def)
  with delta have "max_delta_h div 2 < max_mask_h" "max_delta_w div 2 < max_mask_w"
    by linarith+
  with box have pos: "0 < h" "0 < w" by linarith+
  from box have inside:
    "0 \<le> margin_h \<longrightarrow> 0 \<le> t \<and> t + h \<le> img_h"
    "0 \<le> margin_w \<longrightarrow> 0 \<le> l \<and> l + w \<le> img_w"
    by linarith+
  from run box pos inside show ?thesis by blast
qed

theorem random_bbox_keeps_margin_witness:
  "random_bbox [256, 256, 3] (IntArg 128) (IntArg 40) (TupleArg [20, 30]) (7, 100, 45, 20)
     = Inr (30, 82, 125, 108)
   \<and> (\<exists>t l h w.
         random_bbox [256, 256, 3] (IntArg 128) (IntArg 40) (TupleArg [20, 30]) (7, 100, 45, 20)
           = Inr (t, l, h, w)
       \<and> 20 \<le> t \<and> 30 \<le> l \<and> t + h \<le> 256 - 20 \<and> l + w \<le> 256 - 30
       \<and> 128 - 40 div 2 \<le> h \<and> h \<le> 128 \<and> 128 - 40 div 2 \<le> w \<and> w \<le> 128
       \<and> 0 < h \<and> 0 < w \<and> 0 \<le> t \<and> t + h \<le> 256 \<and> 0 \<le> l \<and> l + w \<le> 256)"
proof -
  have run: "random_bbox [256, 256, 3] (IntArg 128) (IntArg 40) (TupleArg [20, 30])
               (7, 100, 45, 20) = Inr (30, 82, 125, 108)"
    by (simp add: random_bbox_def randint_def)
  have valid: "\<not> validation_fails (256, 256) (128, 128) (40, 40) (20, 30)"
    by (simp add: validation_fails_def)
  from random_bbox_keeps_margin
    [of "[256, 256, 3]" 256 256 "IntArg 128" 128 128 "IntArg 40" 40 40 "TupleArg [20, 30]" 20 30
      "(7, 100, 45, 20)", OF _ _ _ _ valid]
  have "\<exists>t l h w.
         random_bbox [256, 256, 3] (IntArg 128) (IntArg 40) (TupleArg [20, 30]) (7, 100, 45, 20)
           = Inr (t, l, h, w)
       \<and> 20 \<le> t \<and> 30 \<le> l \<and> t + h \<le> 256 - 20 \<and> l + w \<le> 256 - 30
       \<and> 128 - 40 div 2 \<le> h \<and> h \<le> 128 \<and> 128 - 40 div 2 \<le> w \<and> w \<le> 128
       \<and> 0 < h \<and> 0 < w \<and> 0 \<le> t \<and> t + h \<le> 256 \<and> 0 \<le> l \<and> l + w \<le> 256"
    by simp
  with run show ?thesis by blast
qed

section \<open>Properties of \<^verbatim>\<open>bbox2mask\<close>\<close>

lemma map_enumerate_replicate:
  "map (\<lambda>(i, x). f i x) (enumerate 0 (replicate n a)) = map (\<lambda>i. f i a) [0..<n]"
  by (rule nth_equalityI) (simp_all add: nth_enumerate_eq)

lemma count_interval:
  "sum_list (map (\<lambda>j. if a \<le> j \<and> j < b then (1::nat) else 0) [0..<w]) = min b w - min a w"
  by (induction w) auto

lemma sum_indicator_conj:
  "sum_list (map (\<lambda>j. if P1 \<and> P2 \<and> Q j then (1::nat) else 0) js)
     = (if P1 \<and> P2 then 1 else 0) * sum_list (map (\<lambda>j. if Q j then 1 else 0) js)"
  by (cases P1; cases P2) simp_all

lemma concat_concat_map: "concat (concat xss) = concat (map concat xss)"
  by (induction xss) auto

lemma concat_singletons: "concat (map (\<lambda>j. [g j]) js) = map g js"
  by (induction js) auto

lemma sum_list_concat_map:
  "sum_list (map f (concat xss)) = sum_list (map (\<lambda>xs. sum_list (map f xs)) xss)"
  by (induction xss) auto

lemma fill_cols_zeros:
  "fill_cols c0 c1 (replicate w [0]) =
     map (\<lambda>j. [if slice_bound w c0 \<le> j \<and> j < slice_bound w c1 then 1 else 0]) [0..<w]"
  unfolding fill_cols_def
  by (simp add: map_enumerate_replicate [where f = "\<lambda>j px. if slice_bound w c0 \<le> j \<and> j < slice_bound w c1 then map (\<lambda>_. 1) px else px"] cong: map_cong)

lemma replicate_zeros: "replicate w [0::8 word] = map (\<lambda>j. [0]) [0..<w]"
  by (simp add: map_replicate_const)

lemma fill_block_zeros:
  "fill_block r0 r1 c0 c1 (replicate h (replicate w [0])) =
     map (\<lambda>i. map (\<lambda>j. [if slice_bound h r0 \<le> i \<and> i < slice_bound h r1
                             \<and> slice_bound w c0 \<le> j \<and> j < slice_bound w c1 then 1 else 0])
                 [0..<w]) [0..<h]"
proof -
  have "fill_block r0 r1 c0 c1 (replicate h (replicate w [0])) =
      map (\<lambda>i. if slice_bound h r0 \<le> i \<and> i < slice_bound h r1
                then fill_cols c0 c1 (replicate w [0]) else replicate w [0]) [0..<h]"
    unfolding fill_block_def
    by (simp add: map_enumerate_replicate [where f = "\<lambda>i row. if slice_bound h r0 \<le> i \<and> i < slice_bound h r1 then fill_cols c0 c1 row else row"])
  also have "\<dots> = map (\<lambda>i. map (\<lambda>j. [if slice_bound h r0 \<le> i \<and> i < slice_bound h r1
                             \<and> slice_bound w c0 \<le> j \<and> j < slice_bound w c1 then 1 else 0])
                 [0..<w]) [0..<h]"
    by (rule map_cong) (auto simp: fill_cols_zeros map_replicate_const)
  finally show ?thesis .
qed

lemma mask_sum_indicator:
  "mask_sum (map (\<lambda>i. map (\<lambda>j. [if a \<le> i \<and> i < b \<and> c \<le> j \<and> j < d then 1 else 0])
                 [0..<w]) [0..<h]) = (min b h - min a h) * (min d w - min c w)"
proof -
  let ?g = "\<lambda>i j. if a \<le> i \<and> i < b \<and> c \<le> j \<and> j < d then 1 else 0 :: 8 word"
  have inner: "sum_list (map (\<lambda>j. unat (?g i j)) [0..<w])
      = (if a \<le> i \<and> i < b then 1 else 0) * (min d w - min c w)" for i
  proof -
    have "sum_list (map (\<lambda>j. unat (?g i j)) [0..<w])
       = sum_list (map (\<lambda>j. if a \<le> i \<and> i < b \<and> c \<le> j \<and> j < d then (1::nat) else 0) [0..<w])"
      by (simp add: if_distrib [of unat] cong: if_cong)
    also have "\<dots> = (if a \<le> i \<and> i < b then 1 else 0) * (min d w - min c w)"
      by (simp only: sum_indicator_conj count_interval)
    finally show ?thesis .
  qed
  have flat: "concat (concat (map (\<lambda>i. map (\<lambda>j. [?g i j]) [0..<w]) [0..<h]))
      = concat (map (\<lambda>i. map (?g i) [0..<w]) [0..<h])"
    by (simp only: concat_concat_map map_map comp_def concat_singletons)
  have "mask_sum (map (\<lambda>i. map (\<lambda>j. [?g i j]) [0..<w]) [0..<h])
      = sum_list (map (\<lambda>i. sum_list (map (\<lambda>j. unat (?g i j)) [0..<w])) [0..<h])"
    unfolding mask_sum_def flat
    by (simp only: sum_list_concat_map map_map comp_def)
  also have "\<dots> = sum_list (map (\<lambda>i. (if a \<le> i \<and> i < b then 1 else 0) * (min d w - min c w)) [0..<h])"
    by (simp only: inner)
  also have "\<dots> = sum_list (map (\<lambda>i. if a \<le> i \<and> i < b then (1::nat) else 0) [0..<h]) * (min d w - min c w)"
    by (simp only: sum_list_mult_const)
  also have "\<dots> = (min b h - min a h) * (min d w - min c w)"
    by (simp only: count_interval)
  finally show ?thesis .
qed

text \<open>
  Claim C5. For an image shape \<open>(height, width)\<close> and a box \<open>(tp, lf, bh, bw)\<close> (top, left,
  height, width) with non-negative components, \<^verbatim>\<open>bbox2mask\<close> returns an array of
  \<open>height\<close> rows of \<open>width\<close> pixels of one byte each, whose pixel \<open>(i, j)\<close> is 1 exactly when
  \<open>tp \<le> i < tp + bh\<close> and \<open>lf \<le> j < lf + bw\<close> and 0 otherwise; the sum of its entries is
  the area of the box clipped to the image.
\<close>

theorem bbox2mask_is_clipped_box:
  assumes "0 \<le> height" "0 \<le> width" "0 \<le> tp" "0 \<le> lf" "0 \<le> bh" "0 \<le> bw"
    and "take 2 img_shape = [height, width]"
  shows "\<exists>m. bbox2mask img_shape [tp, lf, bh, bw] = Inr m
           \<and> length m = nat height
           \<and> (\<forall>i < nat height. length (m ! i) = nat width
                \<and> (\<forall>j < nat width.
                      m ! i ! j = [if tp \<le> int i \<and> int i < tp + bh
                                      \<and> lf \<le> int j \<and> int j < lf + bw then 1 else 0]))
           \<and> int (mask_sum m) = (min (tp + bh) height - min tp height)
                                 * (min (lf + bw) width - min lf width)"
proof -
  let ?h = "nat height" and ?w = "nat width"
  let ?a = "slice_bound ?h tp" and ?b = "slice_bound ?h (tp + bh)"
  let ?c = "slice_bound ?w lf" and ?d = "slice_bound ?w (lf + bw)"
  let ?m = "map (\<lambda>i. map (\<lambda>j. [if ?a \<le> i \<and> i < ?b \<and> ?c \<le> j \<and> j < ?d then 1 else 0 :: 8 word])
                 [0..<?w]) [0..<?h]"
  have run: "bbox2mask img_shape [tp, lf, bh, bw] = Inr ?m"
    using assms by (simp add: bbox2mask_def np_zeros_def tuple_get_def fill_block_zeros)
  have a: "?a = min (nat tp) ?h" and b: "?b = min (nat (tp + bh)) ?h"
    and c: "?c = min (nat lf) ?w" and d: "?d = min (nat (lf + bw)) ?w"
    using assms by (simp_all add: slice_bound_def)
  have rows: "(?a \<le> i \<and> i < ?b) \<longleftrightarrow> (tp \<le> int i \<and> int i < tp + bh)" if "i < ?h" for i
    using that assms unfolding a b by auto
  have cols: "(?c \<le> j \<and> j < ?d) \<longleftrightarrow> (lf \<le> int j \<and> int j < lf + bw)" if "j < ?w" for j
    using that assms unfolding c d by auto
  have px: "?m ! i ! j = [if tp \<le> int i \<and> int i < tp + bh \<and> lf \<le> int j \<and> int j < lf + bw then 1 else 0]"
    if "i < ?h" "j < ?w" for i j
  proof -
    have "(?a \<le> i \<and> i < ?b \<and> ?c \<le> j \<and> j < ?d)
        \<longleftrightarrow> (tp \<le> int i \<and> int i < tp + bh \<and> lf \<le> int j \<and> int j < lf + bw)"
      using rows [OF that(1)] cols [OF that(2)] by blast
    with that show ?thesis by simp
  qed
  have "mask_sum ?m = (min ?b ?h - min ?a ?h) * (min ?d ?w - min ?c ?w)"
    by (rule mask_sum_indicator)
  also have "\<dots> = (?b - ?a) * (?d - ?c)"
    unfolding a b c d by simp
  finally have "int (mask_sum ?m) = int (?b - ?a) * int (?d - ?c)"
    by simp
  also have "int (?b - ?a) = min (tp + bh) height - min tp height"
    using assms unfolding a b by auto
  also have "int (?d - ?c) = min (lf + bw) width - min lf width"
    using assms unfolding c d by auto
  finally have area: "int (mask_sum ?m) = (min (tp + bh) height - min tp height)
                                 * (min (lf + bw) width - min lf width)" .
  show ?thesis
    using run px area by (intro exI [of _ ?m]) simp
qed

theorem bbox2mask_is_clipped_box_witness:
  "\<exists>m. bbox2mask [3, 4] [1, 2, 5, 1] = Inr m \<and> length m = 3
        \<and> m ! 1 ! 2 = [1] \<and> m ! 1 ! 3 = [0] \<and> m ! 0 ! 2 = [0] \<and> mask_sum m = 2"
proof -
  have "take 2 [3, 4] = [3, 4::int]" by simp
  from bbox2mask_is_clipped_box [of 3 4 1 2 5 1, OF _ _ _ _ _ _ this]
  obtain m where run: "bbox2mask [3, 4] [1, 2, 5, 1] = Inr m"
    and len: "length m = nat 3"
    and px: "\<forall>i < nat 3. length (m ! i) = nat 4
               \<and> (\<forall>j < nat 4. m ! i ! j = [if 1 \<le> int i \<and> int i < 1 + 5
                                                  \<and> 2 \<le> int j \<and> int j < 2 + 1 then 1 else 0])"
    and area: "int (mask_sum m) = (min (1 + 5) 3 - min 1 3) * (min (2 + 1) 4 - min 2 4)"
    by auto
  have p12: "m ! 1 ! 2 = [1]" using px [THEN spec, of 1] by simp
  have p13: "m ! 1 ! 3 = [0]" using px [THEN spec, of 1] by simp
  have p02: "m ! 0 ! 2 = [0]" using px [THEN spec, of 0] by simp
  from area have "mask_sum m = 2" by simp
  with run len p12 p13 p02 show ?thesis by auto
qed

section \<open>Properties of \<^verbatim>\<open>LoadMask.transform\<close>\<close>

lemma img_shape_of_image:
  "map_of results ''img'' = Some (PILImage height width) \<Longrightarrow> img_shape_of results = Inr [height, width]"
  by (simp add: img_shape_of_def)

text \<open>
  Claim C6, as stated, fails: with mode \<^verbatim>\<open>bbox\<close> and \<^verbatim>\<open>max_bbox_shape=128\<close> a results dict
  holding a 100 x 100 image gets no \<^verbatim>\<open>mask\<close> key; the guard of \<^verbatim>\<open>random_bbox\<close> raises
  ValueError and \<^verbatim>\<open>transform\<close> lets it through.
\<close>

theorem transform_bbox_small_image_raises:
  "transform (fixed_mask_generator []) (fixed_mask_generator []) (0, 0, 0, 0)
     (LoadMask_init ''bbox'' (Some [(''max_bbox_shape'', IntArg 128)]))
     [(''img'', PILImage 100 100)]
   = Inl (ValueError ''mask shape should be smaller than image shape'')"
  by (simp add: transform_def LoadMask_init_def img_shape_of_def random_bbox_kwargs_def
      random_bbox_def)

text \<open>
  Claim C6, amended. For a results dict that holds an image: in mode \<^verbatim>\<open>bbox\<close>, when
  \<^verbatim>\<open>random_bbox\<close> and \<^verbatim>\<open>bbox2mask\<close> return, \<^verbatim>\<open>transform\<close> stores the box under \<^verbatim>\<open>mask_bbox\<close> and
  its mask under \<^verbatim>\<open>mask\<close>; in the modes \<^verbatim>\<open>irregular\<close> and \<^verbatim>\<open>ff\<close>, when the generator of the
  mode returns, it stores the mask under \<^verbatim>\<open>mask\<close> and nothing else; for every other
  mode, \<^verbatim>\<open>set\<close> included, it raises NotImplementedError. An exception of
  \<^verbatim>\<open>random_bbox\<close>, of \<^verbatim>\<open>bbox2mask\<close> or of the generator of the mode is raised by
  \<^verbatim>\<open>transform\<close> unchanged; in mode \<^verbatim>\<open>bbox\<close> a configuration without \<^verbatim>\<open>max_bbox_shape\<close>
  raises TypeError. Whenever \<^verbatim>\<open>transform\<close> returns, the mode is one of the three,
  \<^verbatim>\<open>mask\<close> holds a mask, \<^verbatim>\<open>mask_bbox\<close> holds a box in mode \<^verbatim>\<open>bbox\<close> and is as before in the
  other two modes, and every other key is unchanged.
\<close>

theorem transform_adds_mask:
  assumes img: "map_of results ''img'' = Some (PILImage height width)"
  shows "(mask_mode self = ''bbox'' \<longrightarrow>
            random_bbox_kwargs [height, width] (mask_config self) rs = Inr (t, l, bh, bw) \<longrightarrow>
            bbox2mask [height, width] [t, l, bh, bw] = Inr m \<longrightarrow>
            transform gi bs rs self results
              = Inr (AList.update ''mask'' (MaskArray m)
                      (AList.update ''mask_bbox'' (BBox (t, l, bh, bw)) results)))
       \<and> (mask_mode self = ''irregular'' \<longrightarrow> gi [height, width] (mask_config self) = Inr m \<longrightarrow>
            transform gi bs rs self results = Inr (AList.update ''mask'' (MaskArray m) results))
       \<and> (mask_mode self = ''ff'' \<longrightarrow> bs [height, width] (mask_config self) = Inr m \<longrightarrow>
            transform gi bs rs self results = Inr (AList.update ''mask'' (MaskArray m) results))
       \<and> (mask_mode self \<notin> {''bbox'', ''irregular'', ''ff''} \<longrightarrow>
            transform gi bs rs self results = Inl (NotImplementedError (mask_mode self)))
       \<and> (mask_mode self = ''bbox'' \<longrightarrow>
            random_bbox_kwargs [height, width] (mask_config self) rs = Inl e \<longrightarrow>
            transform gi bs rs self results = Inl e)
       \<and> (mask_mode self = ''bbox'' \<longrightarrow>
            random_bbox_kwargs [height, width] (mask_config self) rs = Inr (t, l, bh, bw) \<longrightarrow>
            bbox2mask [height, width] [t, l, bh, bw] = Inl e \<longrightarrow>
            transform gi bs rs self results = Inl e)
       \<and> (mask_mode self = ''irregular'' \<longrightarrow> gi [height, width] (mask_config self) = Inl e \<longrightarrow>
            transform gi bs rs self results = Inl e)
       \<and> (mask_mode self = ''ff'' \<longrightarrow> bs [height, width] (mask_config self) = Inl e \<longrightarrow>
            transform gi bs rs self results = Inl e)
       \<and> (mask_mode self = ''bbox'' \<longrightarrow> map_of (mask_config self) ''max_bbox_shape'' = None \<longrightarrow>
            transform gi bs rs self results = Inl TypeError)
       \<and> (transform gi bs rs self results = Inr res' \<longrightarrow>
            mask_mode self \<in> {''bbox'', ''irregular'', ''ff''}
          \<and> (\<exists>m'. map_of res' ''mask'' = Some (MaskArray m'))
          \<and> (mask_mode self = ''bbox'' \<longrightarrow> (\<exists>b. map_of res' ''mask_bbox'' = Some (BBox b)))
          \<and> (mask_mode self \<noteq> ''bbox'' \<longrightarrow> map_of res' ''mask_bbox'' = map_of results ''mask_bbox'')
          \<and> (\<forall>k. k \<noteq> ''mask'' \<longrightarrow> k \<noteq> ''mask_bbox'' \<longrightarrow> map_of res' k = map_of results k))"
proof -
  note shape = img_shape_of_image [OF img]
  have bbox: "transform gi bs rs self results
              = Inr (AList.update ''mask'' (MaskArray m)
                      (AList.update ''mask_bbox'' (BBox (t, l, bh, bw)) results))"
    if "mask_mode self = ''bbox''"
      "random_bbox_kwargs [height, width] (mask_config self) rs = Inr (t, l, bh, bw)"
      "bbox2mask [height, width] [t, l, bh, bw] = Inr m"
    using that shape by (simp add: transform_def)
  have irregular: "transform gi bs rs self results = Inr (AList.update ''mask'' (MaskArray m) results)"
    if "mask_mode self = ''irregular''" "gi [height, width] (mask_config self) = Inr m"
    using that shape by (simp add: transform_def)
  have ff: "transform gi bs rs self results = Inr (AList.update ''mask'' (MaskArray m) results)"
    if "mask_mode self = ''ff''" "bs [height, width] (mask_config self) = Inr m"
    using that shape by (simp add: transform_def)
  have other: "transform gi bs rs self results = Inl (NotImplementedError (mask_mode self))"
    if "mask_mode self \<notin> {''bbox'', ''irregular'', ''ff''}"
    using that shape by (simp add: transform_def)
  have bbox_raises: "transform gi bs rs self results = Inl e"
    if "mask_mode self = ''bbox''"
      "random_bbox_kwargs [height, width] (mask_config self) rs = Inl e"
    using that shape by (simp add: transform_def)
  have mask_raises: "transform gi bs rs self results = Inl e"
    if "mask_mode self = ''bbox''"
      "random_bbox_kwargs [height, width] (mask_config self) rs = Inr (t, l, bh, bw)"
      "bbox2mask [height, width] [t, l, bh, bw] = Inl e"
    using that shape by (simp add: transform_def)
  have irregular_raises: "transform gi bs rs self results = Inl e"
    if "mask_mode self = ''irregular''" "gi [height, width] (mask_config self) = Inl e"
    using that shape by (simp add: transform_def)
  have ff_raises: "transform gi bs rs self results = Inl e"
    if "mask_mode self = ''ff''" "bs [height, width] (mask_config self) = Inl e"
    using that shape by (simp add: transform_def)
  have no_shape: "transform gi bs rs self results = Inl TypeError"
    if "mask_mode self = ''bbox''" "map_of (mask_config self) ''max_bbox_shape'' = None"
  proof -
    from that(2) have "random_bbox_kwargs [height, width] (mask_config self) rs = Inl TypeError"
      by (simp add: random_bbox_kwargs_def)
    with that(1) shape show ?thesis by (simp add: transform_def)
  qed
  have returned: "mask_mode self \<in> {''bbox'', ''irregular'', ''ff''}
          \<and> (\<exists>m'. map_of res' ''mask'' = Some (MaskArray m'))
          \<and> (mask_mode self = ''bbox'' \<longrightarrow> (\<exists>b. map_of res' ''mask_bbox'' = Some (BBox b)))
          \<and> (mask_mode self \<noteq> ''bbox'' \<longrightarrow> map_of res' ''mask_bbox'' = map_of results ''mask_bbox'')
          \<and> (\<forall>k. k \<noteq> ''mask'' \<longrightarrow> k \<noteq> ''mask_bbox'' \<longrightarrow> map_of res' k = map_of results k)"
    if r: "transform gi bs rs self results = Inr res'"
  proof -
    consider (b) "mask_mode self = ''bbox''" | (i) "mask_mode self = ''irregular''"
      | (f) "mask_mode self = ''ff''" | (o) "mask_mode self \<notin> {''bbox'', ''irregular'', ''ff''}"
      by auto
    then show ?thesis
    proof cases
      case b
      with r shape obtain t' l' h' w' m' where
        "res' = AList.update ''mask'' (MaskArray m')
                  (AList.update ''mask_bbox'' (BBox (t', l', h', w')) results)"
        by (auto simp: transform_def and_then_Inr_iff)
      with b show ?thesis by (simp add: update_conv')
    next
      case i
      with r shape obtain m' where "res' = AList.update ''mask'' (MaskArray m') results"
        by (auto simp: transform_def and_then_Inr_iff)
      with i show ?thesis by (simp add: update_conv')
    next
      case f
      with r shape obtain m' where "res' = AList.update ''mask'' (MaskArray m') results"
        by (auto simp: transform_def and_then_Inr_iff)
      with f show ?thesis by (simp add: update_conv')
    next
      case o
      with r other show ?thesis by simp
    qed
  qed
  show ?thesis
    apply (intro conjI [OF _ conjI [OF _ conjI [OF _ conjI [OF _ conjI [OF _ conjI [OF _
            conjI [OF _ conjI [OF _ conjI]]]]]]]] impI)
    subgoal by (rule bbox)
    subgoal by (rule irregular)
    subgoal by (rule ff)
    subgoal by (rule other)
    subgoal by (rule bbox_raises)
    subgoal by (rule mask_raises)
    subgoal by (rule irregular_raises)
    subgoal by (rule ff_raises)
    subgoal by (rule no_shape)
    subgoal using returned by blast
    done
qed


theorem transform_adds_mask_witness:
  "transform (fixed_mask_generator []) (fixed_mask_generator []) (1, 2, 1, 0)
     (LoadMask_init ''set'' None) [(''img'', PILImage 6 7)]
     = Inl (NotImplementedError ''set'')
   \<and> transform (fixed_mask_generator []) (fixed_mask_generator [[[1]]]) (1, 2, 1, 0)
     (LoadMask_init ''ff'' None) [(''img'', PILImage 1 1), (''mask_bbox'', OtherValue ''kept'')]
     = Inr [(''img'', PILImage 1 1), (''mask_bbox'', OtherValue ''kept''), (''mask'', MaskArray [[[1]]])]
   \<and> transform (fixed_mask_generator []) (fixed_mask_generator []) (1, 2, 1, 0)
     (LoadMask_init ''bbox'' (Some [(''max_bbox_shape'', IntArg 2), (''max_bbox_delta'', IntArg 1),
                                    (''min_margin'', IntArg 1)]))
     [(''img'', PILImage 5 6)]
     = Inr [(''img'', PILImage 5 6), (''mask_bbox'', BBox (1, 1, 2, 2)),
            (''mask'', MaskArray
               [[[0], [0], [0], [0], [0], [0]],
                [[0], [1], [1], [0], [0], [0]],
                [[0], [1], [1], [0], [0], [0]],
                [[0], [0], [0], [0], [0], [0]],
                [[0], [0], [0], [0], [0], [0]]])]"
proof -
  let ?bbox_cfg = "[(''max_bbox_shape'', IntArg 2), (''max_bbox_delta'', IntArg 1), (''min_margin'', IntArg 1)]"
  have img1: "map_of [(''img'', PILImage 6 7)] ''img'' = Some (PILImage 6 7)" by simp
  have img2: "map_of [(''img'', PILImage 1 1), (''mask_bbox'', OtherValue ''kept'')] ''img''
                = Some (PILImage 1 1)" by simp
  have img3: "map_of [(''img'', PILImage 5 6)] ''img'' = Some (PILImage 5 6)" by simp
  have box: "random_bbox_kwargs [5, 6] (mask_config (LoadMask_init ''bbox'' (Some ?bbox_cfg))) (1, 2, 1, 0)
               = Inr (1, 1, 2, 2)"
    by (simp add: LoadMask_init_def random_bbox_kwargs_def random_bbox_def randint_def)
  have mask: "bbox2mask [5, 6] [1, 1, 2, 2]
      = Inr [[[0], [0], [0], [0], [0], [0]],
             [[0], [1], [1], [0], [0], [0]],
             [[0], [1], [1], [0], [0], [0]],
             [[0], [0], [0], [0], [0], [0]],
             [[0], [0], [0], [0], [0], [0]]]"
    by code_simp
  have a: "transform (fixed_mask_generator []) (fixed_mask_generator []) (1, 2, 1, 0)
     (LoadMask_init ''set'' None) [(''img'', PILImage 6 7)] = Inl (NotImplementedError ''set'')"
    using transform_adds_mask [OF img1, where self = "LoadMask_init ''set'' None"]
    by (simp add: LoadMask_init_def)
  have b: "transform (fixed_mask_generator []) (fixed_mask_generator [[[1]]]) (1, 2, 1, 0)
     (LoadMask_init ''ff'' None) [(''img'', PILImage 1 1), (''mask_bbox'', OtherValue ''kept'')]
     = Inr [(''img'', PILImage 1 1), (''mask_bbox'', OtherValue ''kept''), (''mask'', MaskArray [[[1]]])]"
    using transform_adds_mask [OF img2, where self = "LoadMask_init ''ff'' None"
        and bs = "fixed_mask_generator [[[1]]]" and m = "[[[1]]]"]
    by (simp add: LoadMask_init_def fixed_mask_generator_def)
  have c: "transform (fixed_mask_generator []) (fixed_mask_generator []) (1, 2, 1, 0)
     (LoadMask_init ''bbox'' (Some ?bbox_cfg)) [(''img'', PILImage 5 6)]
     = Inr [(''img'', PILImage 5 6), (''mask_bbox'', BBox (1, 1, 2, 2)),
            (''mask'', MaskArray
               [[[0], [0], [0], [0], [0], [0]],
                [[0], [1], [1], [0], [0], [0]],
                [[0], [1], [1], [0], [0], [0]],
                [[0], [0], [0], [0], [0], [0]],
                [[0], [0], [0], [0], [0], [0]]])]"
    using transform_adds_mask [OF img3, where self = "LoadMask_init ''bbox'' (Some ?bbox_cfg)",
        THEN conjunct1, rule_format, OF _ box mask]
    by (simp add: LoadMask_init_def)
  from a b c show ?thesis by simp
qed

end
